theory Spec2Isabelle
  imports Complex_Main "HOL-Library.AList" "HOL-Library.State_Monad" "HOL-Library.Sublist"
begin

section \<open>Arrays, datasets and Python errors\<close>

text \<open>
  The notebooks of the repository are straight-line Python scripts over xarray datasets.
  A numpy array is a shape and an element for every index; an xarray \<open>DataArray\<close> adds
  the names of its dimensions; a \<open>Dataset\<close> is a dictionary from variable names to data
  arrays, kept in insertion order as Python keeps it. The constants that
  \<open>make_profiles\<close> stores are kept as the decimal values of their literals (a
  \<open>dataset\<close>); the flux arrays that the validation cells compare hold float64 numbers
  (a \<open>flux_dataset\<close>), since float64 arithmetic decides the comparison.
\<close>

datatype error = KeyError string | ValueError | AssertionError | LibraryError string

record 'a ndarray =
  shape :: "nat list"
  item :: "nat list \<Rightarrow> 'a"

record 'a data_array =
  dims :: "string list"
  data :: "'a ndarray"

type_synonym dataset = "(string \<times> real data_array) list"

text \<open>\<open>ds[name]\<close>: a missing variable raises \<open>KeyError\<close>.\<close>

definition getitem :: "(string \<times> 'a data_array) list \<Rightarrow> string \<Rightarrow> error + 'a data_array" where
  "getitem ds name = (case map_of ds name of None \<Rightarrow> Inl (KeyError name) | Some v \<Rightarrow> Inr v)"

text \<open>A Python float stored in a dataset becomes a variable with no dimension.\<close>

definition scalar :: "real \<Rightarrow> real data_array" where
  "scalar v = \<lparr>dims = [], data = \<lparr>shape = [], item = (\<lambda>_. v)\<rparr>\<rparr>"

text \<open>\<open>ds[name] = v\<close> for a float \<open>v\<close>: replaces the variable where it stands, or appends it.\<close>

definition setitem :: "dataset \<Rightarrow> string \<Rightarrow> real \<Rightarrow> dataset" where
  "setitem ds name v = AList.update name (scalar v) ds"

text \<open>\<open>a.T\<close>: the dimensions in reverse order.\<close>

definition T :: "'a data_array \<Rightarrow> 'a data_array" where
  "T a = \<lparr>dims = rev (dims a),
          data = \<lparr>shape = rev (shape (data a)), item = (\<lambda>idx. item (data a) (rev idx))\<rparr>\<rparr>"

subsection \<open>float64 numbers\<close>

text \<open>
  An IEEE 754 binary64 number is a finite real, an infinity or NaN (the two zeros are
  not told apart: nothing below depends on the sign of a zero). \<open>round64\<close> rounds a
  real to the nearest binary64 number, ties to the even significand: the unit in the
  last place of \<open>x\<close> is \<open>2 ^ (e - 52)\<close> for the exponent \<open>e\<close> of \<open>x\<close>, never below
  \<open>-1022\<close> (the subnormal numbers), and a result of magnitude \<open>2 ^ 1024\<close> or more
  overflows to an infinity. Every arithmetic operation of numpy on float64 arrays
  is the exact operation followed by this rounding.
\<close>

datatype float64 = Finite real | PosInf | NegInf | NaN

definition round_half_even :: "real \<Rightarrow> int" where
  "round_half_even y =
     (let f = \<lfloor>y\<rfloor>; d = y - of_int f
      in if d < 1 / 2 then f else if 1 / 2 < d then f + 1 else if even f then f else f + 1)"

definition round64 :: "real \<Rightarrow> float64" where
  "round64 x =
     (if x = 0 then Finite 0
      else let e = max \<lfloor>log 2 \<bar>x\<bar>\<rfloor> (- 1022);
               u = 2 powi (e - 52);
               r = of_int (round_half_even (x / u)) * u
           in if \<bar>r\<bar> < 2 ^ 1024 then Finite r else if 0 < x then PosInf else NegInf)"

text \<open>\<open>x - y\<close>, \<open>x + y\<close>, \<open>x * y\<close> and \<open>abs(x)\<close> on float64 numbers.\<close>

fun fsub :: "float64 \<Rightarrow> float64 \<Rightarrow> float64" where
  "fsub NaN _ = NaN"
| "fsub _ NaN = NaN"
| "fsub (Finite x) (Finite y) = round64 (x - y)"
| "fsub (Finite _) PosInf = NegInf"
| "fsub (Finite _) NegInf = PosInf"
| "fsub PosInf PosInf = NaN"
| "fsub PosInf _ = PosInf"
| "fsub NegInf NegInf = NaN"
| "fsub NegInf _ = NegInf"

fun fadd :: "float64 \<Rightarrow> float64 \<Rightarrow> float64" where
  "fadd NaN _ = NaN"
| "fadd _ NaN = NaN"
| "fadd (Finite x) (Finite y) = round64 (x + y)"
| "fadd (Finite _) y = y"
| "fadd PosInf NegInf = NaN"
| "fadd NegInf PosInf = NaN"
| "fadd x _ = x"

fun fmul :: "float64 \<Rightarrow> float64 \<Rightarrow> float64" where
  "fmul NaN _ = NaN"
| "fmul _ NaN = NaN"
| "fmul (Finite x) (Finite y) = round64 (x * y)"
| "fmul (Finite x) PosInf = (if x = 0 then NaN else if 0 < x then PosInf else NegInf)"
| "fmul (Finite x) NegInf = (if x = 0 then NaN else if 0 < x then NegInf else PosInf)"
| "fmul PosInf (Finite y) = (if y = 0 then NaN else if 0 < y then PosInf else NegInf)"
| "fmul NegInf (Finite y) = (if y = 0 then NaN else if 0 < y then NegInf else PosInf)"
| "fmul PosInf PosInf = PosInf"
| "fmul NegInf NegInf = PosInf"
| "fmul PosInf NegInf = NegInf"
| "fmul NegInf PosInf = NegInf"

fun fabs :: "float64 \<Rightarrow> float64" where
  "fabs (Finite x) = Finite \<bar>x\<bar>"
| "fabs PosInf = PosInf"
| "fabs NegInf = PosInf"
| "fabs NaN = NaN"

text \<open>\<open>x <= y\<close>, \<open>x == y\<close> and \<open>isfinite(x)\<close>: every comparison with NaN is false.\<close>

fun less_equal :: "float64 \<Rightarrow> float64 \<Rightarrow> bool" where
  "less_equal NaN _ = False"
| "less_equal _ NaN = False"
| "less_equal (Finite x) (Finite y) = (x \<le> y)"
| "less_equal NegInf _ = True"
| "less_equal _ PosInf = True"
| "less_equal _ _ = False"

fun feq :: "float64 \<Rightarrow> float64 \<Rightarrow> bool" where
  "feq (Finite x) (Finite y) = (x = y)"
| "feq PosInf PosInf = True"
| "feq NegInf NegInf = True"
| "feq _ _ = False"

fun isfinite :: "float64 \<Rightarrow> bool" where
  "isfinite (Finite _) = True"
| "isfinite _ = False"

subsection \<open>\<open>np.isclose\<close> and \<open>.all()\<close>\<close>

text \<open>
  numpy's \<open>isclose(a, b, rtol=1e-05, atol=1e-08)\<close> computes, element by element and
  in float64,
  \<^verbatim>\<open>less_equal(abs(x - y), atol + rtol * abs(y)) & isfinite(y) | (x == y)\<close>
  after broadcasting the two shapes against each other: the shapes are aligned at
  their last dimension, a dimension of size 1 is stretched, and two different sizes
  neither of which is 1 raise \<open>ValueError\<close>. (Older releases of numpy compute the
  first operand for the pairs of finite numbers and the equality for the others,
  which is the same value.) A Python literal denotes the float64 number nearest to
  it: \<open>default_rtol\<close> is numpy's \<open>1e-05\<close>, \<open>atol_1e_7\<close> the notebook's \<open>1e-7\<close>.
\<close>

definition isclose :: "float64 \<Rightarrow> float64 \<Rightarrow> float64 \<Rightarrow> float64 \<Rightarrow> bool" where
  "isclose x y rtol atol \<longleftrightarrow>
     less_equal (fabs (fsub x y)) (fadd atol (fmul rtol (fabs y))) \<and> isfinite y \<or> feq x y"

definition default_rtol :: float64 where
  "default_rtol = round64 (1 / 10 ^ 5)"

definition atol_1e_7 :: float64 where
  "atol_1e_7 = round64 (1 / 10 ^ 7)"

fun broadcast_rev :: "nat list \<Rightarrow> nat list \<Rightarrow> error + nat list" where
  "broadcast_rev [] ys = Inr ys"
| "broadcast_rev (x # xs) [] = Inr (x # xs)"
| "broadcast_rev (x # xs) (y # ys) =
     (if x = y \<or> y = 1 then
        (case broadcast_rev xs ys of Inl e \<Rightarrow> Inl e | Inr zs \<Rightarrow> Inr (x # zs))
      else if x = 1 then
        (case broadcast_rev xs ys of Inl e \<Rightarrow> Inl e | Inr zs \<Rightarrow> Inr (y # zs))
      else Inl ValueError)"

definition broadcast_shapes :: "nat list \<Rightarrow> nat list \<Rightarrow> error + nat list" where
  "broadcast_shapes s1 s2 =
     (case broadcast_rev (rev s1) (rev s2) of Inl e \<Rightarrow> Inl e | Inr zs \<Rightarrow> Inr (rev zs))"

text \<open>The index into an operand of shape \<open>s\<close> that an index of the broadcast result reads.\<close>

definition broadcast_index :: "nat list \<Rightarrow> nat list \<Rightarrow> nat list" where
  "broadcast_index s idx =
     map2 (\<lambda>n i. if n = 1 then 0 else i) s (drop (length idx - length s) idx)"

definition np_isclose ::
  "float64 ndarray \<Rightarrow> float64 ndarray \<Rightarrow> float64 \<Rightarrow> float64 \<Rightarrow> error + bool ndarray" where
  "np_isclose a b rtol atol =
     (case broadcast_shapes (shape a) (shape b) of
        Inl e \<Rightarrow> Inl e
      | Inr s \<Rightarrow> Inr \<lparr>shape = s,
                     item = (\<lambda>idx. isclose (item a (broadcast_index (shape a) idx))
                                           (item b (broadcast_index (shape b) idx)) rtol atol)\<rparr>)"

fun indices :: "nat list \<Rightarrow> nat list list" where
  "indices [] = [[]]"
| "indices (n # ns) = concat (map (\<lambda>i. map ((#) i) (indices ns)) [0..<n])"

definition np_all :: "bool ndarray \<Rightarrow> bool" where
  "np_all c = list_all (item c) (indices (shape c))"

subsection \<open>The validation cells of the all-sky notebook\<close>

text \<open>
  One assertion of the notebook,
  \<^verbatim>\<open>assert np.isclose(fluxes[f], ref_data[r].T, atol=1e-7).all()\<close>:
  the two subscripts are evaluated first (left to right), then the transposition, then
  the comparison with numpy's default \<open>rtol\<close> (the call passes only \<open>atol\<close>), then the
  assertion. The arrays are taken to hold float64 numbers, numpy's and xarray's
  default type.
\<close>

type_synonym flux_dataset = "(string \<times> float64 data_array) list"

definition assert_isclose :: "flux_dataset \<Rightarrow> string \<Rightarrow> flux_dataset \<Rightarrow> string \<Rightarrow> error + unit" where
  "assert_isclose fluxes f ref_data r =
     (case getitem fluxes f of Inl e \<Rightarrow> Inl e | Inr a \<Rightarrow>
      (case getitem ref_data r of Inl e \<Rightarrow> Inl e | Inr b \<Rightarrow>
       (case np_isclose (data a) (data (T b)) default_rtol atol_1e_7 of Inl e \<Rightarrow> Inl e | Inr c \<Rightarrow>
        (if np_all c then Inr () else Inl AssertionError))))"

text \<open>Statements in sequence: the first error ends the cell.\<close>

definition andthen :: "error + unit \<Rightarrow> error + unit \<Rightarrow> error + unit" where
  "andthen p q = (case p of Inl e \<Rightarrow> Inl e | Inr _ \<Rightarrow> q)"

definition validate_longwave :: "flux_dataset \<Rightarrow> flux_dataset \<Rightarrow> error + unit" where
  "validate_longwave fluxes ref_data =
     andthen (assert_isclose fluxes ''lw_flux_up'' ref_data ''lw_flux_up'')
             (assert_isclose fluxes ''lw_flux_down'' ref_data ''lw_flux_dn'')"

definition validate_shortwave :: "flux_dataset \<Rightarrow> flux_dataset \<Rightarrow> error + unit" where
  "validate_shortwave fluxes ref_data =
     andthen (assert_isclose fluxes ''sw_flux_up'' ref_data ''sw_flux_up'')
    (andthen (assert_isclose fluxes ''sw_flux_down'' ref_data ''sw_flux_dn'')
             (assert_isclose fluxes ''sw_flux_dir'' ref_data ''sw_flux_dir''))"

text \<open>
  One flux field of \<open>ncol\<close> columns and \<open>nlev\<close> levels against its reference, which is
  stored with the level dimension first. \<open>all_close\<close>: every element passes numpy's
  test against the element of the transposed reference. \<open>within_absolute_tolerance\<close>:
  what the spec's sentence "within an absolute tolerance" asks, that the two numbers
  are finite and differ by at most the tolerance.
\<close>

definition all_close :: "nat \<Rightarrow> nat \<Rightarrow> float64 data_array \<Rightarrow> float64 data_array \<Rightarrow> bool" where
  "all_close ncol nlev a b \<longleftrightarrow>
     (\<forall>c<ncol. \<forall>l<nlev.
        isclose (item (data a) [c, l]) (item (data b) [l, c]) default_rtol atol_1e_7)"

fun differs_at_most :: "real \<Rightarrow> float64 \<Rightarrow> float64 \<Rightarrow> bool" where
  "differs_at_most tol (Finite x) (Finite y) = (\<bar>x - y\<bar> \<le> tol)"
| "differs_at_most tol _ _ = False"

definition within_absolute_tolerance ::
  "real \<Rightarrow> nat \<Rightarrow> nat \<Rightarrow> float64 data_array \<Rightarrow> float64 data_array \<Rightarrow> bool" where
  "within_absolute_tolerance tol ncol nlev a b \<longleftrightarrow>
     (\<forall>c<ncol. \<forall>l<nlev. differs_at_most tol (item (data a) [c, l]) (item (data b) [l, c]))"

text \<open>A dataset holds the two-dimensional variable \<open>a\<close> of shape \<open>(n, m)\<close> under a name.\<close>

definition flux_field :: "flux_dataset \<Rightarrow> string \<Rightarrow> nat \<Rightarrow> nat \<Rightarrow> float64 data_array \<Rightarrow> bool" where
  "flux_field ds name n m a \<longleftrightarrow> map_of ds name = Some a \<and> shape (data a) = [n, m]"

text \<open>
  Concrete arrays: \<open>filled\<close> has the same element everywhere, \<open>from_rows\<close> the elements
  of a list of rows. The sample fluxes have two columns and three levels, the sample
  references three levels and two sites. In the longwave sample \<open>lw_flux_up\<close> of
  column 0 at level 0 is the float64 number of the literal \<open>300.001\<close> against a
  reference of \<open>300\<close>; in the shortwave sample \<open>sw_flux_dir\<close> of column 1 at level 2 is
  \<open>701\<close> against \<open>700\<close>; every other element equals its reference.
\<close>

definition filled :: "string list \<Rightarrow> nat list \<Rightarrow> real \<Rightarrow> real data_array" where
  "filled ds s v = \<lparr>dims = ds, data = \<lparr>shape = s, item = (\<lambda>_. v)\<rparr>\<rparr>"

definition from_rows :: "string list \<Rightarrow> nat \<Rightarrow> nat \<Rightarrow> real list list \<Rightarrow> float64 data_array" where
  "from_rows ds n m rows =
     \<lparr>dims = ds, data = \<lparr>shape = [n, m], item = (\<lambda>idx. Finite (rows ! (idx ! 0) ! (idx ! 1)))\<rparr>\<rparr>"

definition sample_lw_up :: "float64 data_array" where
  "sample_lw_up = from_rows [''column'', ''level''] 2 3
     [[1319418351377711 / 2 ^ 42, 310, 320], [301, 311, 321]]"

definition sample_lw_down :: "float64 data_array" where
  "sample_lw_down = from_rows [''column'', ''level''] 2 3 [[100, 110, 120], [101, 111, 121]]"

definition sample_lw_ref_up :: "float64 data_array" where
  "sample_lw_ref_up = from_rows [''level'', ''site''] 3 2 [[300, 301], [310, 311], [320, 321]]"

definition sample_lw_ref_dn :: "float64 data_array" where
  "sample_lw_ref_dn = from_rows [''level'', ''site''] 3 2 [[100, 101], [110, 111], [120, 121]]"

definition sample_lw_fluxes :: flux_dataset where
  "sample_lw_fluxes = [(''lw_flux_up'', sample_lw_up), (''lw_flux_down'', sample_lw_down)]"

definition sample_lw_ref :: flux_dataset where
  "sample_lw_ref = [(''lw_flux_up'', sample_lw_ref_up), (''lw_flux_dn'', sample_lw_ref_dn)]"

definition sample_sw_up :: "float64 data_array" where
  "sample_sw_up = from_rows [''column'', ''level''] 2 3 [[50, 60, 70], [51, 61, 71]]"

definition sample_sw_down :: "float64 data_array" where
  "sample_sw_down = from_rows [''column'', ''level''] 2 3 [[900, 910, 920], [901, 911, 921]]"

definition sample_sw_dir :: "float64 data_array" where
  "sample_sw_dir = from_rows [''column'', ''level''] 2 3 [[600, 650, 680], [610, 660, 701]]"

definition sample_sw_ref_up :: "float64 data_array" where
  "sample_sw_ref_up = from_rows [''level'', ''site''] 3 2 [[50, 51], [60, 61], [70, 71]]"

definition sample_sw_ref_dn :: "float64 data_array" where
  "sample_sw_ref_dn = from_rows [''level'', ''site''] 3 2 [[900, 901], [910, 911], [920, 921]]"

definition sample_sw_ref_dir :: "float64 data_array" where
  "sample_sw_ref_dir = from_rows [''level'', ''site''] 3 2 [[600, 610], [650, 660], [680, 700]]"

definition sample_sw_fluxes :: flux_dataset where
  "sample_sw_fluxes =
     [(''sw_flux_up'', sample_sw_up), (''sw_flux_down'', sample_sw_down),
      (''sw_flux_dir'', sample_sw_dir)]"

definition sample_sw_ref :: flux_dataset where
  "sample_sw_ref =
     [(''sw_flux_up'', sample_sw_ref_up), (''sw_flux_dn'', sample_sw_ref_dn),
      (''sw_flux_dir'', sample_sw_ref_dir)]"

section \<open>Profile synthesis: \<open>make_profiles\<close>\<close>

text \<open>
  \<^verbatim>\<open>
  def make_profiles(ncol=24, nlay=72):
      atmosphere = compute_RCE_profiles(300, ncol, nlay)
      gas_values = {"co2": 348e-6, "ch4": 1650e-9, "n2o": 306e-9,
                    "n2": 0.7808, "o2": 0.2095, "co": 0.0}
      for gas_name, value in gas_values.items():
          atmosphere[gas_name] = value
      return atmosphere
  \<close>
  \<open>compute_RCE_profiles\<close> belongs to the package and is not among the sources: it is a
  parameter, and whatever it raises, \<open>make_profiles\<close> raises.
\<close>

definition gas_values :: "(string \<times> real) list" where
  "gas_values =
     [(''co2'', 348 / 10 ^ 6), (''ch4'', 1650 / 10 ^ 9), (''n2o'', 306 / 10 ^ 9),
      (''n2'', 7808 / 10 ^ 4), (''o2'', 2095 / 10 ^ 4), (''co'', 0)]"

definition make_profiles ::
  "(int \<Rightarrow> int \<Rightarrow> int \<Rightarrow> error + dataset) \<Rightarrow> int \<Rightarrow> int \<Rightarrow> error + dataset" where
  "make_profiles compute_RCE_profiles ncol nlay =
     (case compute_RCE_profiles 300 ncol nlay of
        Inl e \<Rightarrow> Inl e
      | Inr atmosphere \<Rightarrow>
          Inr (fold (\<lambda>(gas_name, v) atmosphere. setitem atmosphere gas_name v)
                 gas_values atmosphere))"

text \<open>The names of the six gases that \<open>make_profiles\<close> stores.\<close>

definition gas_names :: "string set" where
  "gas_names = {''co2'', ''ch4'', ''n2o'', ''n2'', ''o2'', ''co''}"

text \<open>A profile synthesis to run \<open>make_profiles\<close> on: water vapour, whatever the sizes.\<close>

definition sample_profiles :: "int \<Rightarrow> int \<Rightarrow> int \<Rightarrow> error + dataset" where
  "sample_profiles sst ncol nlay =
     Inr [(''h2o'', filled [''column'', ''layer''] [nat ncol, nat nlay] (1 / 100))]"

section \<open>The flag \<open>delta_scale\<close> of \<open>add_to\<close>\<close>

text \<open>
  Modelled from the spec: the default of \<open>add_to\<close>'s parameter \<open>delta_scale\<close>, whose
  signature is not among the sources. The spec calls the delta-scaling correction
  optional, so a call that does not pass the flag does not ask for it.
\<close>

definition delta_scale_default :: bool where
  "delta_scale_default = False"

text \<open>Whether a call applies the correction: an omitted argument takes the default.\<close>

definition delta_scale_applied :: "bool option \<Rightarrow> bool" where
  "delta_scale_applied flag = (case flag of None \<Rightarrow> delta_scale_default | Some b \<Rightarrow> b)"

section \<open>The notebooks as sequences of calls\<close>

text \<open>
  The two notebooks call the package (\<open>pyrte_rrtmgp\<close>) and xarray in a fixed order. The
  order is what the following model keeps: every call appends an event to the list of
  calls made so far and returns a description of its result, namely which calls the
  dataset comes from and which variables the notebook itself has stored in it. A
  dataset that Python updates in place (by a subscript assignment, by \<open>add_to\<close>) is
  passed through the call and bound again, so a name always stands for the current
  dataset. What the package computes is not modelled here.
\<close>

datatype CloudOpticsFiles = LW_BND | SW_BND
datatype GasOpticsFiles = LW_G256 | SW_G224
datatype OpticsProblemTypes = ABSORPTION | TWO_STREAM
datatype ALLSKY_EXAMPLES = REF_LW_NO_AEROSOL | REF_SW_NO_AEROSOL

datatype origin =
    Cloud_optics_data CloudOpticsFiles
  | Gas_optics_data GasOpticsFiles
  | RCE_profiles
  | RCE_clouds
  | Gas_optics GasOpticsFiles OpticsProblemTypes
  | Cloud_optics CloudOpticsFiles "OpticsProblemTypes option"
  | Literal
  | Fluxes "GasOpticsFiles option"
  | Reference ALLSKY_EXAMPLES

record obj =
  origins :: "origin list"
  assigned :: "string list"

datatype event =
    Load_cloud_optics CloudOpticsFiles
  | Load_gas_optics GasOpticsFiles
  | Compute_RCE_profiles int int int
  | Compute_RCE_clouds obj obj
  | Dataset_merge obj obj
  | Chunk obj
  | Compute_gas_optics obj obj OpticsProblemTypes bool
  | Compute_cloud_optics obj obj "OpticsProblemTypes option"
  | Add_to obj obj "bool option"
  | Set_item obj string
  | Xr_Dataset "string list"
  | Xr_merge obj obj
  | Rte_solve obj bool
  | Load_example_file ALLSKY_EXAMPLES
  | Assert_isclose obj string obj string

type_synonym 'a nb = "(event list, 'a) state"

definition emit :: "event \<Rightarrow> unit nb" where
  "emit e = State_Monad.update (\<lambda>calls. calls @ [e])"

definition made_by :: "origin \<Rightarrow> obj" where
  "made_by og = \<lparr>origins = [og], assigned = []\<rparr>"

subsection \<open>The calls\<close>

definition load_cloud_optics :: "CloudOpticsFiles \<Rightarrow> obj nb" where
  "load_cloud_optics cloud_optics_file =
     do { emit (Load_cloud_optics cloud_optics_file);
          State_Monad.return (made_by (Cloud_optics_data cloud_optics_file)) }"

definition load_gas_optics :: "GasOpticsFiles \<Rightarrow> obj nb" where
  "load_gas_optics gas_optics_file =
     do { emit (Load_gas_optics gas_optics_file);
          State_Monad.return (made_by (Gas_optics_data gas_optics_file)) }"

definition compute_RCE_profiles :: "int \<Rightarrow> int \<Rightarrow> int \<Rightarrow> obj nb" where
  "compute_RCE_profiles sst ncol nlay =
     do { emit (Compute_RCE_profiles sst ncol nlay);
          State_Monad.return (made_by RCE_profiles) }"

text \<open>\<open>ds[name] = value\<close>\<close>

definition set_item :: "obj \<Rightarrow> string \<Rightarrow> obj nb" where
  "set_item ds name =
     do { emit (Set_item ds name);
          State_Monad.return (ds\<lparr>assigned := assigned ds @ [name]\<rparr>) }"

fun set_items :: "obj \<Rightarrow> string list \<Rightarrow> obj nb" where
  "set_items ds [] = State_Monad.return ds"
| "set_items ds (name # names) = do { ds' \<leftarrow> set_item ds name; set_items ds' names }"

text \<open>The calls that \<open>make_profiles\<close> makes, with the defaults of its two parameters.\<close>

definition default_ncol :: int where
  "default_ncol = 24"

definition default_nlay :: int where
  "default_nlay = 72"

definition make_profiles_calls :: "int \<Rightarrow> int \<Rightarrow> obj nb" where
  "make_profiles_calls ncol nlay =
     do { atmosphere \<leftarrow> compute_RCE_profiles 300 ncol nlay;
          set_items atmosphere (map fst gas_values) }"

text \<open>\<open>compute_RCE_clouds(cloud_optics, atmosphere["pres_layer"], atmosphere["temp_layer"])\<close>\<close>

definition compute_RCE_clouds :: "obj \<Rightarrow> obj \<Rightarrow> obj nb" where
  "compute_RCE_clouds cloud_optics atmosphere =
     do { emit (Compute_RCE_clouds cloud_optics atmosphere);
          State_Monad.return (made_by RCE_clouds) }"

text \<open>\<open>a.merge(b)\<close> and \<open>xr.merge([a, b])\<close>: a new dataset with the variables of both.\<close>

definition merged :: "obj \<Rightarrow> obj \<Rightarrow> obj" where
  "merged a b = \<lparr>origins = origins a @ origins b, assigned = assigned a @ assigned b\<rparr>"

definition dataset_merge :: "obj \<Rightarrow> obj \<Rightarrow> obj nb" where
  "dataset_merge a b = do { emit (Dataset_merge a b); State_Monad.return (merged a b) }"

definition xr_merge :: "obj \<Rightarrow> obj \<Rightarrow> obj nb" where
  "xr_merge a b = do { emit (Xr_merge a b); State_Monad.return (merged a b) }"

text \<open>\<open>xr.Dataset(data_vars = {...})\<close>\<close>

definition xr_Dataset :: "string list \<Rightarrow> obj nb" where
  "xr_Dataset names =
     do { emit (Xr_Dataset names);
          State_Monad.return \<lparr>origins = [Literal], assigned = names\<rparr> }"

definition chunk :: "obj \<Rightarrow> obj nb" where
  "chunk ds = do { emit (Chunk ds); State_Monad.return ds }"

text \<open>
  \<open>gas_optics.compute_gas_optics(atmosphere, problem_type=..., add_to_input=False)\<close>
  and \<open>rte_solve(ds, add_to_input=False)\<close>: every call of the notebooks passes
  \<open>add_to_input=False\<close> and uses the value returned, a dataset of its own.
\<close>

definition gas_optics_file :: "obj \<Rightarrow> GasOpticsFiles option" where
  "gas_optics_file gas_optics =
     (case origins gas_optics of [Gas_optics_data f] \<Rightarrow> Some f | _ \<Rightarrow> None)"

definition cloud_optics_file :: "obj \<Rightarrow> CloudOpticsFiles option" where
  "cloud_optics_file cloud_optics =
     (case origins cloud_optics of [Cloud_optics_data f] \<Rightarrow> Some f | _ \<Rightarrow> None)"

definition compute_gas_optics :: "obj \<Rightarrow> obj \<Rightarrow> OpticsProblemTypes \<Rightarrow> bool \<Rightarrow> obj nb" where
  "compute_gas_optics gas_optics atmosphere problem_type add_to_input =
     do { emit (Compute_gas_optics gas_optics atmosphere problem_type add_to_input);
          State_Monad.return
            \<lparr>origins = (case gas_optics_file gas_optics of
                          None \<Rightarrow> [] | Some f \<Rightarrow> [Gas_optics f problem_type]),
             assigned = []\<rparr> }"

text \<open>\<open>cloud_optics.compute_cloud_optics(atmosphere)\<close>, with or without \<open>problem_type=...\<close>\<close>

definition cloud_optics_result :: "obj \<Rightarrow> OpticsProblemTypes option \<Rightarrow> obj" where
  "cloud_optics_result cloud_optics problem_type =
     \<lparr>origins = (case cloud_optics_file cloud_optics of
                   None \<Rightarrow> [] | Some f \<Rightarrow> [Cloud_optics f problem_type]),
      assigned = []\<rparr>"

definition compute_cloud_optics :: "obj \<Rightarrow> obj \<Rightarrow> OpticsProblemTypes option \<Rightarrow> obj nb" where
  "compute_cloud_optics cloud_optics atmosphere problem_type =
     do { emit (Compute_cloud_optics cloud_optics atmosphere problem_type);
          State_Monad.return (cloud_optics_result cloud_optics problem_type) }"

text \<open>
  \<open>clouds.add_to(optical_props)\<close> and \<open>clouds.add_to(optical_props, delta_scale=True)\<close>:
  as the notebooks' comments say of \<open>add_to\<close>, the value is the updated
  \<open>optical_props\<close>, which now comes from both datasets.
\<close>

definition add_to_call :: "obj \<Rightarrow> obj \<Rightarrow> bool option \<Rightarrow> obj nb" where
  "add_to_call clouds optical_props delta_scale =
     do { emit (Add_to clouds optical_props delta_scale);
          State_Monad.return (merged optical_props clouds) }"

text \<open>
  The fluxes that \<open>rte_solve\<close> returns are those of the problem it is given: the gas
  optics data file that the dataset's optical properties were first computed from.
\<close>

fun first_gas_optics :: "origin list \<Rightarrow> GasOpticsFiles option" where
  "first_gas_optics [] = None"
| "first_gas_optics (Gas_optics f _ # _) = Some f"
| "first_gas_optics (_ # ogs) = first_gas_optics ogs"

definition problem_of :: "obj \<Rightarrow> GasOpticsFiles option" where
  "problem_of ds = first_gas_optics (origins ds)"

definition rte_solve :: "obj \<Rightarrow> bool \<Rightarrow> obj nb" where
  "rte_solve ds add_to_input =
     do { emit (Rte_solve ds add_to_input);
          State_Monad.return (made_by (Fluxes (problem_of ds))) }"

definition load_example_file :: "ALLSKY_EXAMPLES \<Rightarrow> obj nb" where
  "load_example_file example =
     do { emit (Load_example_file example); State_Monad.return (made_by (Reference example)) }"

text \<open>\<open>assert np.isclose(fluxes[f], ref_data[r].T, atol=1e-7).all()\<close>, as a call\<close>

definition assert_isclose_call :: "obj \<Rightarrow> string \<Rightarrow> obj \<Rightarrow> string \<Rightarrow> unit nb" where
  "assert_isclose_call fluxes f ref_data r = emit (Assert_isclose fluxes f ref_data r)"

subsection \<open>The quick-start notebook\<close>

text \<open>
  The cells of \<open>pyRTE-quick-start.ipynb\<close> from top to bottom. Cells that only display a
  value, the plotting cells (guarded by \<open>do_plots = False\<close>) and the progress bar
  around the last cell call nothing of the package. In
  Python the object of a method call is evaluated before the arguments of the call,
  so in \<open>cloud_optics_sw.compute_cloud_optics(atmosphere).add_to(
  gas_optics_sw.compute_gas_optics(...), delta_scale=True)\<close> the cloud optics is
  computed first, the gas optics second, and \<open>add_to\<close> is called last.
\<close>

definition all_sky_shortwave_props :: "obj \<Rightarrow> obj \<Rightarrow> obj \<Rightarrow> obj nb" where
  "all_sky_shortwave_props cloud_optics_sw gas_optics_sw atmosphere =
     do { clouds \<leftarrow> compute_cloud_optics cloud_optics_sw atmosphere None;
          gases \<leftarrow> compute_gas_optics gas_optics_sw atmosphere TWO_STREAM False;
          add_to_call clouds gases (Some True) }"

definition combined_solve :: "obj \<Rightarrow> obj \<Rightarrow> obj \<Rightarrow> obj nb" where
  "combined_solve cloud_optics_sw gas_optics_sw atmosphere =
     do { optical_props \<leftarrow> all_sky_shortwave_props cloud_optics_sw gas_optics_sw atmosphere;
          boundary \<leftarrow> xr_Dataset [''surface_albedo'', ''mu0''];
          problem \<leftarrow> xr_merge optical_props boundary;
          rte_solve problem False }"

definition quick_start :: "unit nb" where
  "quick_start =
     do { cloud_optics_lw \<leftarrow> load_cloud_optics LW_BND;
          gas_optics_lw \<leftarrow> load_gas_optics LW_G256;
          cloud_optics_sw \<leftarrow> load_cloud_optics SW_BND;
          gas_optics_sw \<leftarrow> load_gas_optics SW_G224;
          atmosphere \<leftarrow> make_profiles_calls default_ncol default_nlay;
          cloud_props \<leftarrow> compute_RCE_clouds cloud_optics_lw atmosphere;
          atmosphere \<leftarrow> dataset_merge atmosphere cloud_props;
          optical_props \<leftarrow> compute_gas_optics gas_optics_lw atmosphere ABSORPTION False;
          optical_props \<leftarrow> set_item optical_props ''surface_emissivity'';
          clr_fluxes \<leftarrow> rte_solve optical_props False;
          clouds_optical_props \<leftarrow> compute_cloud_optics cloud_optics_lw atmosphere (Some ABSORPTION);
          optical_props \<leftarrow> add_to_call clouds_optical_props optical_props None;
          fluxes \<leftarrow> rte_solve optical_props False;
          optical_props \<leftarrow> all_sky_shortwave_props cloud_optics_sw gas_optics_sw atmosphere;
          optical_props \<leftarrow> set_item optical_props ''surface_albedo'';
          optical_props \<leftarrow> set_item optical_props ''mu0'';
          fluxes \<leftarrow> rte_solve optical_props False;
          fluxes \<leftarrow> combined_solve cloud_optics_sw gas_optics_sw atmosphere;
          atmosphere \<leftarrow> make_profiles_calls (24 * 16) default_nlay;
          cloud_props \<leftarrow> compute_RCE_clouds cloud_optics_lw atmosphere;
          atmosphere \<leftarrow> dataset_merge atmosphere cloud_props;
          atmosphere \<leftarrow> chunk atmosphere;
          fluxes \<leftarrow> combined_solve cloud_optics_sw gas_optics_sw atmosphere;
          State_Monad.return () }"

subsection \<open>The all-sky notebook\<close>

text \<open>
  The second notebook (``All-sky Radiative Transfer Example''): the longwave
  calculation with its validation cell, then the shortwave one. Its shortwave cell
  computes the gas optics first and merges the cloud optics into it afterwards.
\<close>

definition all_sky_example :: "unit nb" where
  "all_sky_example =
     do { cloud_optics_lw \<leftarrow> load_cloud_optics LW_BND;
          gas_optics_lw \<leftarrow> load_gas_optics LW_G256;
          atmosphere \<leftarrow> make_profiles_calls default_ncol default_nlay;
          cloud_props \<leftarrow> compute_RCE_clouds cloud_optics_lw atmosphere;
          atmosphere \<leftarrow> dataset_merge atmosphere cloud_props;
          optical_props \<leftarrow> compute_gas_optics gas_optics_lw atmosphere ABSORPTION False;
          optical_props \<leftarrow> set_item optical_props ''surface_emissivity'';
          clouds_optical_props \<leftarrow> compute_cloud_optics cloud_optics_lw atmosphere (Some ABSORPTION);
          optical_props \<leftarrow> add_to_call clouds_optical_props optical_props None;
          fluxes \<leftarrow> rte_solve optical_props False;
          ref_data \<leftarrow> load_example_file REF_LW_NO_AEROSOL;
          assert_isclose_call fluxes ''lw_flux_up'' ref_data ''lw_flux_up'';
          assert_isclose_call fluxes ''lw_flux_down'' ref_data ''lw_flux_dn'';
          cloud_optics_sw \<leftarrow> load_cloud_optics SW_BND;
          gas_optics_sw \<leftarrow> load_gas_optics SW_G224;
          atmosphere \<leftarrow> make_profiles_calls default_ncol default_nlay;
          cloud_props \<leftarrow> compute_RCE_clouds cloud_optics_sw atmosphere;
          atmosphere \<leftarrow> dataset_merge atmosphere cloud_props;
          optical_props \<leftarrow> compute_gas_optics gas_optics_sw atmosphere TWO_STREAM False;
          clouds \<leftarrow> compute_cloud_optics cloud_optics_sw atmosphere None;
          optical_props \<leftarrow> add_to_call clouds optical_props (Some True);
          optical_props \<leftarrow> set_item optical_props ''surface_albedo_direct'';
          optical_props \<leftarrow> set_item optical_props ''surface_albedo_diffuse'';
          optical_props \<leftarrow> set_item optical_props ''mu0'';
          fluxes \<leftarrow> rte_solve optical_props False;
          ref_data \<leftarrow> load_example_file REF_SW_NO_AEROSOL;
          assert_isclose_call fluxes ''sw_flux_up'' ref_data ''sw_flux_up'';
          assert_isclose_call fluxes ''sw_flux_down'' ref_data ''sw_flux_dn'';
          assert_isclose_call fluxes ''sw_flux_dir'' ref_data ''sw_flux_dir'' }"

text \<open>The calls a notebook makes, in order.\<close>

definition calls_of :: "unit nb \<Rightarrow> event list" where
  "calls_of notebook = snd (run_state notebook [])"

subsection \<open>Properties of a sequence of calls\<close>



text \<open>\<open>in_order steps calls\<close>: the calls contain one call for every step, in the steps' order.\<close>

fun in_order :: "(event \<Rightarrow> bool) list \<Rightarrow> event list \<Rightarrow> bool" where
  "in_order [] calls = True"
| "in_order (step # steps) [] = False"
| "in_order (step # steps) (e # es) =
     (if step e then in_order steps es else in_order (step # steps) es)"




fun is_cloud_optics :: "event \<Rightarrow> bool" where
  "is_cloud_optics (Compute_cloud_optics _ _ _) = True"
| "is_cloud_optics _ = False"

fun is_add_to :: "event \<Rightarrow> bool" where
  "is_add_to (Add_to _ _ _) = True"
| "is_add_to _ = False"


text \<open>The gas optics of the data file \<open>f\<close> is computed.\<close>

fun computes_gas :: "GasOpticsFiles \<Rightarrow> event \<Rightarrow> bool" where
  "computes_gas f (Compute_gas_optics gas_optics _ _ _) = (gas_optics_file gas_optics = Some f)"
| "computes_gas f _ = False"


















subsection \<open>Delta scaling at the calls of \<open>add_to\<close>\<close>

text \<open>The problem a call of \<open>add_to\<close> combines optical properties for.\<close>

definition shortwave_two_stream :: "obj \<Rightarrow> bool" where
  "shortwave_two_stream optical_props \<longleftrightarrow> origins optical_props = [Gas_optics SW_G224 TWO_STREAM]"

definition longwave_absorption :: "obj \<Rightarrow> bool" where
  "longwave_absorption optical_props \<longleftrightarrow> origins optical_props = [Gas_optics LW_G256 ABSORPTION]"

definition delta_scale_by_problem :: "event \<Rightarrow> bool" where
  "delta_scale_by_problem e =
     (case e of
        Add_to clouds optical_props delta_scale \<Rightarrow>
          (if shortwave_two_stream optical_props
           then delta_scale = Some True \<and> delta_scale_applied delta_scale
           else longwave_absorption optical_props \<and> delta_scale = None \<and>
                \<not> delta_scale_applied delta_scale)
      | _ \<Rightarrow> True)"

section \<open>The validation cells: comparison with the reference\<close>

text \<open>Two arrays of the same two-dimensional shape are compared element by element.\<close>

lemma set_indices2: "set (indices [n, m]) = {[i, j] | i j. i < n \<and> j < m}"
  by auto

lemma broadcast_same2: "broadcast_shapes [n, m] [n, m] = Inr [n, m]"
  by (simp add: broadcast_shapes_def)

lemma broadcast_index2: "i < n \<Longrightarrow> j < m \<Longrightarrow> broadcast_index [n, m] [i, j] = [i, j]"
  by (auto simp: broadcast_index_def)

lemma np_all_isclose2:
  assumes "shape a = [n, m]" "shape b = [n, m]"
  shows "\<exists>c. np_isclose a b rtol atol = Inr c \<and>
     (np_all c \<longleftrightarrow> (\<forall>i<n. \<forall>j<m. isclose (item a [i, j]) (item b [i, j]) rtol atol))"
  using assms
  by (auto simp: np_isclose_def broadcast_same2 np_all_def list_all_iff broadcast_index2)

lemma assert_isclose_2d:
  assumes "map_of fluxes f = Some a" "map_of ref_data r = Some b"
    "shape (data a) = [ncol, nlev]" "shape (data b) = [nlev, ncol]"
  shows "assert_isclose fluxes f ref_data r =
     (if all_close ncol nlev a b then Inr () else Inl AssertionError)"
proof -
  have sT: "shape (data (T b)) = [ncol, nlev]" using assms by (simp add: T_def)
  obtain c where c: "np_isclose (data a) (data (T b)) default_rtol atol_1e_7 = Inr c"
    and call: "np_all c \<longleftrightarrow> (\<forall>i<ncol. \<forall>j<nlev. isclose (item (data a) [i, j]) (item (data (T b)) [i, j]) default_rtol atol_1e_7)"
    using np_all_isclose2[OF assms(3) sT] by blast
  have "np_all c \<longleftrightarrow> all_close ncol nlev a b"
    unfolding call all_close_def by (simp add: T_def)
  then show ?thesis using assms(1,2) c
    by (simp add: assert_isclose_def getitem_def)
qed

lemma assert_isclose_fields:
  assumes "flux_field fluxes f ncol nlev a" "flux_field ref_data r nlev ncol b"
  shows "assert_isclose fluxes f ref_data r =
     (if all_close ncol nlev a b then Inr () else Inl AssertionError)"
  using assms unfolding flux_field_def by (intro assert_isclose_2d) auto

lemma forall_2_3:
  "(\<forall>c<(2::nat). \<forall>l<(3::nat). P c l) \<longleftrightarrow> P 0 0 \<and> P 0 1 \<and> P 0 2 \<and> P 1 0 \<and> P 1 1 \<and> P 1 2"
proof -
  have 2: "c < (2::nat) \<longleftrightarrow> c = 0 \<or> c = 1" for c by auto
  have 3: "l < (3::nat) \<longleftrightarrow> l = 0 \<or> l = 1 \<or> l = 2" for l by auto
  show ?thesis unfolding 2 3 by blast
qed

lemma from_rows_item:
  "item (data (from_rows ds n m rows)) [c, l] = Finite (rows ! c ! l)"
  by (simp add: from_rows_def)

lemma isclose_same: "isclose (Finite x) (Finite x) rtol atol"
  by (simp add: isclose_def)

text \<open>The test on two finite numbers, written out.\<close>

lemma isclose_finite:
  "isclose (Finite x) (Finite y) rtol atol \<longleftrightarrow>
     less_equal (fabs (round64 (x - y))) (fadd atol (fmul rtol (Finite \<bar>y\<bar>))) \<or> x = y"
  by (simp add: isclose_def)


text \<open>Evaluating \<open>round64\<close>: the exponent of a number is read off the powers of two around it.\<close>

lemma floor_log2_eq:
  assumes "2 powi e \<le> x" "x < 2 powi (e + 1)"
  shows "\<lfloor>log 2 x\<rfloor> = e"
proof -
  have "(0::real) < 2 powi e" by simp
  with assms(1) have pos: "0 < x" by linarith
  have "2 powr (of_int e) = (2::real) powi e" "2 powr (of_int (e + 1)) = (2::real) powi (e + 1)"
    using powr_real_of_int'[of 2 e] powr_real_of_int'[of 2 "e + 1"] by simp_all
  then have "2 powr (of_int e) \<le> x \<and> x < 2 powr (of_int e + 1)"
    using assms by simp
  then show ?thesis using pos
    by (simp add: floor_log_eq_powr_iff)
qed

lemma round_half_even_bound: "\<bar>real_of_int (round_half_even y)\<bar> \<le> \<bar>y\<bar> + 1"
  unfolding round_half_even_def Let_def by (auto; linarith)

lemma round64_normal:
  assumes "2 powi e \<le> \<bar>x\<bar>" "\<bar>x\<bar> < 2 powi (e + 1)" "- 1022 \<le> e" "e \<le> 1022"
  shows "round64 x = Finite (of_int (round_half_even (x / 2 powi (e - 52))) * 2 powi (e - 52))"
proof -
  let ?u = "(2::real) powi (e - 52)"
  let ?n = "round_half_even (x / ?u)"
  have upos: "0 < ?u" by simp
  have "(0::real) < 2 powi e" by simp
  with assms(1) have "0 < \<bar>x\<bar>" by linarith
  then have nz: "x \<noteq> 0" by auto
  have fl: "\<lfloor>log 2 \<bar>x\<bar>\<rfloor> = e" using assms(1,2) by (rule floor_log2_eq)
  have "\<bar>real_of_int ?n\<bar> \<le> \<bar>x / ?u\<bar> + 1" by (rule round_half_even_bound)
  then have "\<bar>real_of_int ?n\<bar> * ?u \<le> (\<bar>x / ?u\<bar> + 1) * ?u"
    using upos by (simp add: mult_right_mono)
  also have "\<dots> = \<bar>x\<bar> + ?u" using upos by (simp add: field_simps abs_mult)
  also have "\<dots> < 2 powi (e + 1) + ?u" using assms(2) by simp
  also have "?u \<le> 2 powi (e + 1)" by (intro power_int_increasing) auto
  finally have "\<bar>real_of_int ?n\<bar> * ?u < 2 powi (e + 1) + 2 powi (e + 1)" by simp
  also have "\<dots> = (2::real) powi (e + 2)" by (simp add: power_int_add)
  also have "\<dots> \<le> 2 powi 1024" using assms(4) by (intro power_int_increasing) auto
  finally have "\<bar>real_of_int ?n * ?u\<bar> < 2 ^ 1024" using upos by (simp add: abs_mult)
  then show ?thesis using nz fl assms(3)
    by (simp add: round64_def Let_def max_def)
qed

text \<open>The float64 numbers of the literals \<open>1e-7\<close>, \<open>1e-05\<close> and \<open>300.001\<close>.\<close>

lemma atol_double: "atol_1e_7 = Finite (944473296573929 / 2 ^ 73)"
  unfolding atol_1e_7_def using round64_normal[of "-24" "1 / 10 ^ 7"]
  by (simp add: round_half_even_def)

lemma rtol_double: "default_rtol = Finite (5902958103587057 / 2 ^ 69)"
  unfolding default_rtol_def using round64_normal[of "-17" "1 / 10 ^ 5"]
  by (simp add: round_half_even_def)

lemma literal_300_001: "round64 (300001 / 1000) = Finite (1319418351377711 / 2 ^ 42)"
  using round64_normal[of 8 "300001 / 1000"] by (simp add: round_half_even_def)

text \<open>
  The test on three pairs of float64 numbers. \<open>300.001\<close> against \<open>300\<close> passes: the
  difference is about \<open>1e-3\<close>, the bound about \<open>3e-3\<close>. \<open>701\<close> against \<open>700\<close> fails. The
  third pair passes in float64 although the exact difference exceeds the exact bound
  (by about \<open>1e-18\<close>): the rounded bound equals the difference.
\<close>

lemma close_300:
  "isclose (Finite (1319418351377711 / 2 ^ 42)) (Finite 300) default_rtol atol_1e_7"
proof -
  have s: "round64 (1319418351377711 / 2 ^ 42 - 300) = Finite (4398046511 / 2 ^ 42)"
    using round64_normal[of "-10" "1319418351377711 / 2 ^ 42 - 300"] by (simp add: round_half_even_def)
  have m: "round64 (5902958103587057 / 2 ^ 69 * \<bar>300\<bar>) = Finite (3458764513820541 / 2 ^ 60)"
    using round64_normal[of "-9" "5902958103587057 / 2 ^ 69 * \<bar>300\<bar>"] by (simp add: round_half_even_def)
  have a: "round64 (944473296573929 / 2 ^ 73 + 3458764513820541 / 2 ^ 60) = Finite (6917759611942003 / 2 ^ 61)"
    using round64_normal[of "-9" "944473296573929 / 2 ^ 73 + 3458764513820541 / 2 ^ 60"]
    by (simp add: round_half_even_def)
  show ?thesis
    unfolding isclose_def atol_double rtol_double fsub.simps fabs.simps fmul.simps fadd.simps s m a
    by simp
qed

lemma not_close_701:
  "\<not> isclose (Finite 701) (Finite 700) default_rtol atol_1e_7"
proof -
  have s: "round64 (701 - 700) = Finite 1"
    using round64_normal[of 0 "701 - 700"] by (simp add: round_half_even_def)
  have m: "round64 (5902958103587057 / 2 ^ 69 * \<bar>700\<bar>) = Finite (8070450532247929 / 2 ^ 60)"
    using round64_normal[of "-8" "5902958103587057 / 2 ^ 69 * \<bar>700\<bar>"] by (simp add: round_half_even_def)
  have a: "round64 (944473296573929 / 2 ^ 73 + 8070450532247929 / 2 ^ 60) = Finite (4035282912199195 / 2 ^ 59)"
    using round64_normal[of "-8" "944473296573929 / 2 ^ 73 + 8070450532247929 / 2 ^ 60"]
    by (simp add: round_half_even_def)
  show ?thesis
    unfolding isclose_def atol_double rtol_double fsub.simps fabs.simps fmul.simps fadd.simps s m a
    by simp
qed

lemma close_in_float64_only:
  "isclose (Finite (7724000203628399 / 2 ^ 44)) (Finite (3861961481319777 / 2 ^ 43)) default_rtol atol_1e_7 \<and>
   \<not> \<bar>7724000203628399 / 2 ^ 44 - 3861961481319777 / 2 ^ 43\<bar>
      \<le> (1 / 10 ^ 7 + 1 / 10 ^ 5 * \<bar>3861961481319777 / 2 ^ 43\<bar> :: real)"
proof -
  have s: "round64 (7724000203628399 / 2 ^ 44 - 3861961481319777 / 2 ^ 43) = Finite (77240988845 / 2 ^ 44)"
    using round64_normal[of "-8" "7724000203628399 / 2 ^ 44 - 3861961481319777 / 2 ^ 43"]
    by (simp add: round_half_even_def)
  have m: "round64 (5902958103587057 / 2 ^ 69 * \<bar>3861961481319777 / 2 ^ 43\<bar>) = Finite (5061950152795459 / 2 ^ 60)"
    using round64_normal[of "-8" "5902958103587057 / 2 ^ 69 * \<bar>3861961481319777 / 2 ^ 43\<bar>"]
    by (simp add: round_half_even_def)
  have a: "round64 (944473296573929 / 2 ^ 73 + 5061950152795459 / 2 ^ 60) = Finite (77240988845 / 2 ^ 44)"
    using round64_normal[of "-8" "944473296573929 / 2 ^ 73 + 5061950152795459 / 2 ^ 60"]
    by (simp add: round_half_even_def)
  have "isclose (Finite (7724000203628399 / 2 ^ 44)) (Finite (3861961481319777 / 2 ^ 43)) default_rtol atol_1e_7"
    unfolding isclose_def atol_double rtol_double fsub.simps fabs.simps fmul.simps fadd.simps s m a
    by simp
  then show ?thesis by simp
qed

text \<open>Equal infinities pass, NaN never does, and nothing is close to an infinite reference but itself.\<close>

lemma isclose_not_finite:
  "isclose PosInf PosInf rtol atol"
  "\<not> isclose NaN y rtol atol"
  "\<not> isclose x NaN rtol atol"
  "\<not> isclose (Finite x') PosInf rtol atol"
proof -
  show "isclose PosInf PosInf rtol atol" by (simp add: isclose_def)
  show "\<not> isclose NaN y rtol atol" by (cases y) (simp_all add: isclose_def)
  show "\<not> isclose x NaN rtol atol" by (cases x) (simp_all add: isclose_def)
  show "\<not> isclose (Finite x') PosInf rtol atol" by (simp add: isclose_def)
qed

text \<open>The two cells on fields of matching shapes.\<close>

lemma validate_longwave_fields:
  assumes "flux_field lw ''lw_flux_up'' ncol nlev up" "flux_field lw ''lw_flux_down'' ncol nlev down"
    "flux_field lw_ref ''lw_flux_up'' nlev ncol ref_up" "flux_field lw_ref ''lw_flux_dn'' nlev ncol ref_dn"
  shows "validate_longwave lw lw_ref =
     (if all_close ncol nlev up ref_up \<and> all_close ncol nlev down ref_dn
      then Inr () else Inl AssertionError)"
  unfolding validate_longwave_def
    assert_isclose_fields[OF assms(1) assms(3)] assert_isclose_fields[OF assms(2) assms(4)]
  by (simp add: andthen_def)

lemma validate_shortwave_fields:
  assumes "flux_field sw ''sw_flux_up'' ncol nlev up" "flux_field sw ''sw_flux_down'' ncol nlev down"
    "flux_field sw ''sw_flux_dir'' ncol nlev dir"
    "flux_field sw_ref ''sw_flux_up'' nlev ncol ref_up" "flux_field sw_ref ''sw_flux_dn'' nlev ncol ref_dn"
    "flux_field sw_ref ''sw_flux_dir'' nlev ncol ref_dir"
  shows "validate_shortwave sw sw_ref =
     (if all_close ncol nlev up ref_up \<and> all_close ncol nlev down ref_dn \<and>
         all_close ncol nlev dir ref_dir
      then Inr () else Inl AssertionError)"
  unfolding validate_shortwave_def
    assert_isclose_fields[OF assms(1) assms(4)] assert_isclose_fields[OF assms(2) assms(5)]
    assert_isclose_fields[OF assms(3) assms(6)]
  by (simp add: andthen_def)

text \<open>
  Claim C1, as amended. When the computed fluxes have \<open>ncol\<close> columns and \<open>nlev\<close> levels
  and the reference arrays have the transposed shape, the longwave validation cell
  raises no error exactly when, at every column and level, \<open>lw_flux_up\<close> and
  \<open>lw_flux_down\<close> pass numpy's closeness test against the element of the transposed
  reference, with \<open>atol = 1e-7\<close> and numpy's default \<open>rtol = 1e-5\<close>, which the notebook
  leaves in force: in float64 arithmetic \<open>|flux - reference| <= 1e-7 + 1e-5 *
  |reference|\<close> with the reference finite, or the flux equals the reference. Otherwise
  the cell raises \<open>AssertionError\<close>. The shortwave cell does the same for
  \<open>sw_flux_up\<close>, \<open>sw_flux_down\<close> and \<open>sw_flux_dir\<close>.
\<close>

theorem validation_within_isclose_tolerance:
  "(flux_field lw ''lw_flux_up'' ncol nlev up \<and> flux_field lw ''lw_flux_down'' ncol nlev down \<and>
    flux_field lw_ref ''lw_flux_up'' nlev ncol ref_up \<and> flux_field lw_ref ''lw_flux_dn'' nlev ncol ref_dn
    \<longrightarrow> validate_longwave lw lw_ref =
        (if all_close ncol nlev up ref_up \<and> all_close ncol nlev down ref_dn
         then Inr () else Inl AssertionError)) \<and>
   (flux_field sw ''sw_flux_up'' ncol' nlev' sw_up \<and> flux_field sw ''sw_flux_down'' ncol' nlev' sw_down \<and>
    flux_field sw ''sw_flux_dir'' ncol' nlev' sw_dir \<and>
    flux_field sw_ref ''sw_flux_up'' nlev' ncol' sw_ref_up \<and> flux_field sw_ref ''sw_flux_dn'' nlev' ncol' sw_ref_dn \<and>
    flux_field sw_ref ''sw_flux_dir'' nlev' ncol' sw_ref_dir
    \<longrightarrow> validate_shortwave sw sw_ref =
        (if all_close ncol' nlev' sw_up sw_ref_up \<and> all_close ncol' nlev' sw_down sw_ref_dn \<and>
            all_close ncol' nlev' sw_dir sw_ref_dir
         then Inr () else Inl AssertionError))"
  using validate_longwave_fields validate_shortwave_fields by blast

text \<open>The samples: their fields, and which of them pass.\<close>

lemma sample_fields:
  "flux_field sample_lw_fluxes ''lw_flux_up'' 2 3 sample_lw_up"
  "flux_field sample_lw_fluxes ''lw_flux_down'' 2 3 sample_lw_down"
  "flux_field sample_lw_ref ''lw_flux_up'' 3 2 sample_lw_ref_up"
  "flux_field sample_lw_ref ''lw_flux_dn'' 3 2 sample_lw_ref_dn"
  "flux_field sample_sw_fluxes ''sw_flux_up'' 2 3 sample_sw_up"
  "flux_field sample_sw_fluxes ''sw_flux_down'' 2 3 sample_sw_down"
  "flux_field sample_sw_fluxes ''sw_flux_dir'' 2 3 sample_sw_dir"
  "flux_field sample_sw_ref ''sw_flux_up'' 3 2 sample_sw_ref_up"
  "flux_field sample_sw_ref ''sw_flux_dn'' 3 2 sample_sw_ref_dn"
  "flux_field sample_sw_ref ''sw_flux_dir'' 3 2 sample_sw_ref_dir"
  by (simp_all add: flux_field_def sample_lw_fluxes_def sample_lw_ref_def sample_sw_fluxes_def
      sample_sw_ref_def sample_lw_up_def sample_lw_down_def sample_lw_ref_up_def
      sample_lw_ref_dn_def sample_sw_up_def sample_sw_down_def sample_sw_dir_def
      sample_sw_ref_up_def sample_sw_ref_dn_def sample_sw_ref_dir_def from_rows_def)

lemma sample_close:
  "all_close 2 3 sample_lw_up sample_lw_ref_up"
  "all_close 2 3 sample_lw_down sample_lw_ref_dn"
  "all_close 2 3 sample_sw_up sample_sw_ref_up"
  "all_close 2 3 sample_sw_down sample_sw_ref_dn"
  "\<not> all_close 2 3 sample_sw_dir sample_sw_ref_dir"
  unfolding all_close_def forall_2_3 sample_lw_up_def sample_lw_ref_up_def sample_lw_down_def
    sample_lw_ref_dn_def sample_sw_up_def sample_sw_ref_up_def sample_sw_down_def
    sample_sw_ref_dn_def sample_sw_dir_def sample_sw_ref_dir_def from_rows_item
  using close_300 not_close_701 by (simp_all add: isclose_same)

lemma sample_not_within_absolute_tolerance:
  "\<not> within_absolute_tolerance (1 / 10 ^ 7) 2 3 sample_lw_up sample_lw_ref_up"
  unfolding within_absolute_tolerance_def forall_2_3 sample_lw_up_def sample_lw_ref_up_def from_rows_item
  by simp

text \<open>
  The theorem at fluxes of two columns and three levels against references of three
  levels and two sites: the longwave sample passes, the shortwave sample (a direct
  beam of 701 against a reference of 700 in column 1 at level 2) fails.
\<close>

theorem validation_within_isclose_tolerance_witness:
  "validate_longwave sample_lw_fluxes sample_lw_ref = Inr () \<and>
   validate_shortwave sample_sw_fluxes sample_sw_ref = Inl AssertionError"
  using validation_within_isclose_tolerance
    [where lw = sample_lw_fluxes and lw_ref = sample_lw_ref and ncol = 2 and nlev = 3
       and up = sample_lw_up and down = sample_lw_down
       and ref_up = sample_lw_ref_up and ref_dn = sample_lw_ref_dn
       and sw = sample_sw_fluxes and sw_ref = sample_sw_ref and ncol' = 2 and nlev' = 3
       and sw_up = sample_sw_up and sw_down = sample_sw_down and sw_dir = sample_sw_dir
       and sw_ref_up = sample_sw_ref_up and sw_ref_dn = sample_sw_ref_dn
       and sw_ref_dir = sample_sw_ref_dir]
    sample_fields sample_close
  by simp

text \<open>
  Claim C1 as stated fails: the longwave sample passes the validation although
  \<open>lw_flux_up\<close> of column 0 at level 0 differs from its reference by about \<open>0.001\<close>,
  far more than the absolute tolerance \<open>1e-7\<close>.
\<close>

theorem absolute_tolerance_counterexample:
  "\<not> (validate_longwave sample_lw_fluxes sample_lw_ref = Inr () \<longleftrightarrow>
      within_absolute_tolerance (1 / 10 ^ 7) 2 3 sample_lw_up sample_lw_ref_up \<and>
      within_absolute_tolerance (1 / 10 ^ 7) 2 3 sample_lw_down sample_lw_ref_dn)"
proof -
  have "validate_longwave sample_lw_fluxes sample_lw_ref = Inr ()"
    using validate_longwave_fields[OF sample_fields(1-4)] sample_close(1,2) by simp
  then show ?thesis using sample_not_within_absolute_tolerance by simp
qed

section \<open>\<open>make_profiles\<close>: the six gases\<close>

text \<open>A subscript assignment changes one variable and no other.\<close>

lemma update_absent: "k \<notin> fst ` set al \<Longrightarrow> AList.update k v al = al @ [(k, v)]"
  by (induction al) auto

lemma setitem_lookup: "map_of (setitem ds name v) = (map_of ds)(name \<mapsto> scalar v)"
  by (simp add: setitem_def update_conv')

lemma setitem_names: "fst ` set (setitem ds name v) = insert name (fst ` set ds)"
  by (simp add: setitem_def dom_update)

lemma setitem_absent: "name \<notin> fst ` set ds \<Longrightarrow> setitem ds name v = ds @ [(name, scalar v)]"
  by (simp add: setitem_def update_absent)

text \<open>
  Claim C6. Whenever \<open>compute_RCE_profiles(300, ncol, nlay)\<close> returns a profile,
  \<open>make_profiles(ncol, nlay)\<close> returns that profile with the six variables \<open>co2\<close>,
  \<open>ch4\<close>, \<open>n2o\<close>, \<open>n2\<close>, \<open>o2\<close> and \<open>co\<close> set to the constants \<open>348e-6\<close>, \<open>1650e-9\<close>,
  \<open>306e-9\<close>, \<open>0.7808\<close>, \<open>0.2095\<close> and \<open>0.0\<close>; every other variable is as the profile has
  it, no further variable appears, and when the profile holds none of the six names
  (water vapour being its own), the six are appended to it in this order.
\<close>

theorem make_profiles_adds_gases:
  assumes "profiles_of 300 ncol nlay = Inr profile"
  shows "\<exists>atmosphere. make_profiles profiles_of ncol nlay = Inr atmosphere \<and>
     map_of atmosphere ''co2'' = Some (scalar (348 / 10 ^ 6)) \<and>
     map_of atmosphere ''ch4'' = Some (scalar (1650 / 10 ^ 9)) \<and>
     map_of atmosphere ''n2o'' = Some (scalar (306 / 10 ^ 9)) \<and>
     map_of atmosphere ''n2'' = Some (scalar (7808 / 10 ^ 4)) \<and>
     map_of atmosphere ''o2'' = Some (scalar (2095 / 10 ^ 4)) \<and>
     map_of atmosphere ''co'' = Some (scalar 0) \<and>
     (\<forall>name. name \<notin> gas_names \<longrightarrow> map_of atmosphere name = map_of profile name) \<and>
     fst ` set atmosphere = fst ` set profile \<union> gas_names \<and>
     (fst ` set profile \<inter> gas_names = {} \<longrightarrow>
        atmosphere = profile @ map (\<lambda>(gas_name, v). (gas_name, scalar v)) gas_values)"
proof -
  let ?atm = "fold (\<lambda>(gas_name, v) atmosphere. setitem atmosphere gas_name v) gas_values profile"
  have run: "make_profiles profiles_of ncol nlay = Inr ?atm"
    using assms by (simp add: make_profiles_def)
  have lookup: "map_of ?atm =
      (map_of profile)(''co2'' \<mapsto> scalar (348 / 10 ^ 6), ''ch4'' \<mapsto> scalar (1650 / 10 ^ 9),
        ''n2o'' \<mapsto> scalar (306 / 10 ^ 9), ''n2'' \<mapsto> scalar (7808 / 10 ^ 4),
        ''o2'' \<mapsto> scalar (2095 / 10 ^ 4), ''co'' \<mapsto> scalar 0)"
    by (simp add: gas_values_def setitem_lookup)
  have names: "fst ` set ?atm = fst ` set profile \<union> gas_names"
    by (auto simp: gas_values_def setitem_names gas_names_def)
  have fresh: "?atm = profile @ map (\<lambda>(gas_name, v). (gas_name, scalar v)) gas_values"
    if "fst ` set profile \<inter> gas_names = {}"
  proof -
    have "''co2'' \<notin> fst ` set profile" "''ch4'' \<notin> fst ` set profile" "''n2o'' \<notin> fst ` set profile"
      "''n2'' \<notin> fst ` set profile" "''o2'' \<notin> fst ` set profile" "''co'' \<notin> fst ` set profile"
      using that by (auto simp: gas_names_def)
    then show ?thesis
      by (simp add: gas_values_def setitem_absent)
  qed
  show ?thesis
    using run lookup names fresh by (simp add: gas_names_def)
qed

text \<open>What the profile synthesis raises, \<open>make_profiles\<close> raises.\<close>

lemma make_profiles_raises:
  "profiles_of 300 ncol nlay = Inl e \<Longrightarrow> make_profiles profiles_of ncol nlay = Inl e"
  by (simp add: make_profiles_def)

text \<open>The theorem at a profile that holds water vapour only, for 24 columns and 72 layers.\<close>

theorem make_profiles_adds_gases_witness:
  "make_profiles sample_profiles 24 72 =
     Inr ([(''h2o'', filled [''column'', ''layer''] [24, 72] (1 / 100))] @
          map (\<lambda>(gas_name, v). (gas_name, scalar v)) gas_values) \<and>
   map_of [(''h2o'', filled [''column'', ''layer''] [24, 72] (1 / 100))] ''co2'' = None"
proof -
  have p: "sample_profiles 300 24 72 = Inr [(''h2o'', filled [''column'', ''layer''] [24, 72] (1 / 100))]"
    by (simp add: sample_profiles_def)
  have d: "fst ` set [(''h2o'', filled [''column'', ''layer''] [24, 72] (1 / 100))] \<inter> gas_names = {}"
    by (simp add: gas_names_def)
  show ?thesis
    using make_profiles_adds_gases
      [where profiles_of = sample_profiles and ncol = 24 and nlay = 72
         and profile = "[(''h2o'', filled [''column'', ''layer''] [24, 72] (1 / 100))]"] p d
    by auto
qed

text \<open>The six gases are stored as numbers: they have no dimension, the layer dimension included.\<close>

lemma added_gases_have_no_dimension:
  "list_all (\<lambda>(gas_name, v). dims (scalar v) = [] \<and> shape (data (scalar v)) = []) gas_values"
  by (simp add: gas_values_def scalar_def)

section \<open>The order of the calls\<close>


lemma in_order_subseq:
  "in_order steps calls \<longleftrightarrow> (\<exists>sub. subseq sub calls \<and> list_all2 (\<lambda>step e. step e) steps sub)"
proof
  show "in_order steps calls \<Longrightarrow> \<exists>sub. subseq sub calls \<and> list_all2 (\<lambda>step e. step e) steps sub"
  proof (induction steps calls rule: in_order.induct)
    case (1 calls)
    then show ?case by auto
  next
    case (2 step steps)
    then show ?case by simp
  next
    case (3 step steps e es)
    show ?case
    proof (cases "step e")
      case True
      with 3 obtain sub where "subseq sub es" "list_all2 (\<lambda>step e. step e) steps sub" by auto
      with True have "subseq (e # sub) (e # es) \<and> list_all2 (\<lambda>step e. step e) (step # steps) (e # sub)"
        by simp
      then show ?thesis by blast
    next
      case False
      with 3 obtain sub where "subseq sub es" "list_all2 (\<lambda>step e. step e) (step # steps) sub" by auto
      then have "subseq sub (e # es) \<and> list_all2 (\<lambda>step e. step e) (step # steps) sub"
        by (simp add: list_emb_Cons)
      then show ?thesis by blast
    qed
  qed
next
  assume "\<exists>sub. subseq sub calls \<and> list_all2 (\<lambda>step e. step e) steps sub"
  then obtain sub where "subseq sub calls" "list_all2 (\<lambda>step e. step e) steps sub" by blast
  then show "in_order steps calls"
  proof (induction steps calls arbitrary: sub rule: in_order.induct)
    case (1 calls)
    then show ?case by simp
  next
    case (2 step steps)
    then show ?case by (auto simp: list_all2_Cons1)
  next
    case (3 step steps e es)
    from 3(4) obtain x sub' where sub: "sub = x # sub'" "step x" "list_all2 (\<lambda>step e. step e) steps sub'"
      by (auto simp: list_all2_Cons1)
    show ?case
    proof (cases "step e")
      case True
      have "subseq sub' es"
        using 3(3) sub(1) by (metis subseq_Cons' subseq_Cons2_iff)
      with 3(1)[OF True _ sub(3)] True show ?thesis by simp
    next
      case False
      with sub(1,2) have "x \<noteq> e" by auto
      with 3(3) sub(1) have "subseq sub es" by (simp add: subseq_Cons2_neq)
      with 3(2)[OF False _ 3(4)] False show ?thesis by simp
    qed
  qed
qed








text \<open>
  Two more places where the notebooks leave the order of the list: in the quick-start
  notebook's shortwave cell the cloud optics is computed before the gas optics it is
  merged into, and in the longwave calculations \<open>surface_emissivity\<close> is set before the
  cloud optics is computed.
\<close>

lemma cloud_optics_before_gas_optics:
  "is_cloud_optics (calls_of quick_start ! 19) \<and> computes_gas SW_G224 (calls_of quick_start ! 20) \<and>
   is_add_to (calls_of quick_start ! 21) \<and>
   \<not> list_ex (computes_gas SW_G224) (take 20 (calls_of quick_start))"
  by code_simp

lemma boundary_condition_before_cloud_optics:
  "calls_of all_sky_example ! 12 =
     Set_item \<lparr>origins = [Gas_optics LW_G256 ABSORPTION], assigned = []\<rparr> ''surface_emissivity'' \<and>
   is_cloud_optics (calls_of all_sky_example ! 13) \<and>
   \<not> list_ex is_cloud_optics (take 13 (calls_of all_sky_example))"
  by code_simp

section \<open>Delta scaling: shortwave only\<close>

lemma add_to_calls_checked:
  "list_all delta_scale_by_problem (calls_of quick_start @ calls_of all_sky_example)"
  by code_simp

lemma problems_differ: "shortwave_two_stream ds \<Longrightarrow> \<not> longwave_absorption ds"
  by (simp add: shortwave_two_stream_def longwave_absorption_def)

text \<open>
  Claim C7. Every call of \<open>add_to\<close> in the two notebooks combines cloud and gas optical
  properties either for the shortwave two-stream problem or for the longwave
  absorption problem; the shortwave calls pass \<open>delta_scale=True\<close>, the longwave calls
  pass no flag, and so the correction is applied exactly in the shortwave calls.
\<close>

theorem delta_scale_exactly_for_shortwave:
  "\<forall>e \<in> set (calls_of quick_start) \<union> set (calls_of all_sky_example).
     \<forall>clouds optical_props delta_scale. e = Add_to clouds optical_props delta_scale \<longrightarrow>
       (shortwave_two_stream optical_props \<or> longwave_absorption optical_props) \<and>
       (shortwave_two_stream optical_props \<longrightarrow> delta_scale = Some True) \<and>
       (longwave_absorption optical_props \<longrightarrow> delta_scale = None) \<and>
       (delta_scale_applied delta_scale \<longleftrightarrow> shortwave_two_stream optical_props)"
proof (intro ballI allI impI)
  fix e clouds optical_props delta_scale
  assume mem: "e \<in> set (calls_of quick_start) \<union> set (calls_of all_sky_example)"
    and e: "e = Add_to clouds optical_props delta_scale"
  from add_to_calls_checked mem have "delta_scale_by_problem e"
    by (auto simp: list_all_iff)
  with e have *: "if shortwave_two_stream optical_props
       then delta_scale = Some True \<and> delta_scale_applied delta_scale
       else longwave_absorption optical_props \<and> delta_scale = None \<and>
            \<not> delta_scale_applied delta_scale"
    by (simp add: delta_scale_by_problem_def)
  show "(shortwave_two_stream optical_props \<or> longwave_absorption optical_props) \<and>
       (shortwave_two_stream optical_props \<longrightarrow> delta_scale = Some True) \<and>
       (longwave_absorption optical_props \<longrightarrow> delta_scale = None) \<and>
       (delta_scale_applied delta_scale \<longleftrightarrow> shortwave_two_stream optical_props)"
  proof (cases "shortwave_two_stream optical_props")
    case True
    with * problems_differ[OF True] show ?thesis by auto
  next
    case False
    with * show ?thesis by auto
  qed
qed

text \<open>The theorem at the longwave call of the quick-start notebook and at the shortwave call of the all-sky notebook.\<close>

theorem delta_scale_exactly_for_shortwave_witness:
  "Add_to \<lparr>origins = [Cloud_optics LW_BND (Some ABSORPTION)], assigned = []\<rparr>
       \<lparr>origins = [Gas_optics LW_G256 ABSORPTION], assigned = [''surface_emissivity'']\<rparr> None
     \<in> set (calls_of quick_start) \<and>
   \<not> delta_scale_applied None \<and>
   Add_to \<lparr>origins = [Cloud_optics SW_BND None], assigned = []\<rparr>
       \<lparr>origins = [Gas_optics SW_G224 TWO_STREAM], assigned = []\<rparr> (Some True)
     \<in> set (calls_of all_sky_example) \<and>
   delta_scale_applied (Some True)"
proof -
  have m1: "Add_to \<lparr>origins = [Cloud_optics LW_BND (Some ABSORPTION)], assigned = []\<rparr>
       \<lparr>origins = [Gas_optics LW_G256 ABSORPTION], assigned = [''surface_emissivity'']\<rparr> None
     \<in> set (calls_of quick_start)"
    by code_simp
  have m2: "Add_to \<lparr>origins = [Cloud_optics SW_BND None], assigned = []\<rparr>
       \<lparr>origins = [Gas_optics SW_G224 TWO_STREAM], assigned = []\<rparr> (Some True)
     \<in> set (calls_of all_sky_example)"
    by code_simp
  have l: "longwave_absorption \<lparr>origins = [Gas_optics LW_G256 ABSORPTION], assigned = [''surface_emissivity'']\<rparr>"
    by (simp add: longwave_absorption_def)
  have s: "shortwave_two_stream \<lparr>origins = [Gas_optics SW_G224 TWO_STREAM], assigned = []\<rparr>"
    by (simp add: shortwave_two_stream_def)
  from delta_scale_exactly_for_shortwave m1 l
  have 1: "\<not> delta_scale_applied None"
    using problems_differ by blast
  from delta_scale_exactly_for_shortwave m2 s
  have 2: "delta_scale_applied (Some True)" by blast
  show ?thesis using m1 m2 1 2 by simp
qed

end
